theory Spec2Isabelle
  imports Complex_Main "HOL-Library.Char_ord" "HOL-Library.List_Lexorder"
    "HOL-Library.Product_Lexorder"
begin

section \<open>Strings: the helpers of \<^verbatim>\<open>app.py\<close>\<close>

text \<open>
  Strings are lists of 8-bit characters. The Python source works on Unicode strings; the
  model covers the ASCII range, where \<^verbatim>\<open>\s\<close>, \<^verbatim>\<open>\d\<close>, \<^verbatim>\<open>str.strip\<close> and
  \<^verbatim>\<open>str.lower\<close> are the classes written out below.
\<close>

definition isspace :: "char \<Rightarrow> bool" where
  "isspace c = (c \<in> set [CHR 0x09, CHR 0x0A, CHR 0x0B, CHR 0x0C, CHR 0x0D,
                          CHR 0x1C, CHR 0x1D, CHR 0x1E, CHR 0x1F, CHR 0x20])"

definition isdigit :: "char \<Rightarrow> bool" where
  "isdigit c = (c \<in> set ''0123456789'')"

definition digit_val :: "char \<Rightarrow> int" where
  "digit_val c = int (of_char c) - 48"

definition lower_char :: "char \<Rightarrow> char" where
  "lower_char c = (let n = (of_char c :: nat) in if 65 \<le> n \<and> n \<le> 90 then char_of (n + 32) else c)"

definition lower :: "string \<Rightarrow> string" where
  "lower s = map lower_char s"

text \<open>\<^verbatim>\<open>str.strip()\<close>: whitespace is removed at both ends.\<close>

definition strip :: "string \<Rightarrow> string" where
  "strip s = rev (dropWhile isspace (rev (dropWhile isspace s)))"

text \<open>\<^verbatim>\<open>re.sub(r"\s+", " ", s)\<close>: every maximal run of whitespace becomes one blank.\<close>

function sub_spaces :: "string \<Rightarrow> string" where
  "sub_spaces [] = []"
| "sub_spaces (c # cs) =
     (if isspace c then CHR '' '' # sub_spaces (dropWhile isspace cs)
      else c # sub_spaces cs)"
  by pat_completeness auto
termination
  by (relation "measure length") (auto simp: length_dropWhile_le less_Suc_eq_le)

definition clean_colname :: "string \<Rightarrow> string" where
  "clean_colname c = strip (sub_spaces c)"

text \<open>\<^verbatim>\<open>sub in s\<close> for strings: \<open>sub\<close> occurs at some position of \<open>s\<close>.\<close>

fun contains :: "string \<Rightarrow> string \<Rightarrow> bool" where
  "contains sub [] = (sub = [])"
| "contains sub (c # cs) = (take (length sub) (c # cs) = sub \<or> contains sub cs)"

section \<open>Year resolver\<close>

text \<open>
  \<^verbatim>\<open>re.search(r"(20\d{2})", s)\<close> followed by \<^verbatim>\<open>int(m.group(1))\<close>: the leftmost position
  where \<^verbatim>\<open>20\<close> and two digits stand, read as a number; \<open>None\<close> when there is none.
\<close>

fun search_year :: "string \<Rightarrow> int option" where
  "search_year (a # b # c # d # rest) =
     (if a = CHR ''2'' \<and> b = CHR ''0'' \<and> isdigit c \<and> isdigit d
      then Some (2000 + 10 * digit_val c + digit_val d)
      else search_year (b # c # d # rest))"
| "search_year _ = None"

text \<open>The argument is the file's name, which is what \<^verbatim>\<open>Path(path).name\<close> yields.\<close>

definition detect_year_from_filename :: "string \<Rightarrow> int option" where
  "detect_year_from_filename name = search_year name"

fun detect_year_from_columns :: "string list \<Rightarrow> int option" where
  "detect_year_from_columns [] = None"
| "detect_year_from_columns (c # cols) =
     (case search_year c of Some y \<Rightarrow> Some y | None \<Rightarrow> detect_year_from_columns cols)"

section \<open>Column resolver\<close>

definition pick_brand_col :: "string list \<Rightarrow> string option" where
  "pick_brand_col cols =
     (case find (\<lambda>c. contains ''brand'' (lower c)) cols of
        Some c \<Rightarrow> Some c
      | None \<Rightarrow> (case cols of [] \<Rightarrow> None | c # _ \<Rightarrow> Some c))"

definition pick_retail_col :: "string list \<Rightarrow> string option" where
  "pick_retail_col cols =
     (case find (\<lambda>c. contains ''retail'' (lower c)) cols of
        Some c \<Rightarrow> Some c
      | None \<Rightarrow> (if length cols > 1 then Some (cols ! 1) else None))"

section \<open>Raw tables and the long-format normaliser\<close>

text \<open>
  A cell of a table read by \<^verbatim>\<open>pd.read_csv\<close> is missing (NaN), a string or a number.
  A table is the list of its columns, each a name with its cells from top to bottom; in
  a table that was read from a file all columns have the same number of cells.
\<close>

datatype cell = Missing | Text string | Number real

type_synonym frame = "(string \<times> cell list) list"

definition columns :: "frame \<Rightarrow> string list" where
  "columns df = map fst df"

text \<open>The record of the long format: the columns \<^verbatim>\<open>Year\<close>, \<^verbatim>\<open>Brand\<close>, \<^verbatim>\<open>Retail\<close>.\<close>

record row =
  Year :: int
  Brand :: string
  Retail :: real

datatype error = KeyError | AttributeError | TypeError

text \<open>
  \<^verbatim>\<open>Series.astype(str)\<close> on a column of Python objects: a string stays, a missing value
  becomes the string \<^verbatim>\<open>nan\<close>, a number is printed. How pandas prints a float is
  outside the repository and is the parameter \<open>fmt\<close>.
\<close>

fun astype_str :: "(real \<Rightarrow> string) \<Rightarrow> cell \<Rightarrow> string" where
  "astype_str fmt Missing = ''nan''"
| "astype_str fmt (Text s) = s"
| "astype_str fmt (Number r) = fmt r"

text \<open>
  \<^verbatim>\<open>pd.to_numeric(..., errors="coerce")\<close>, cell by cell: \<open>None\<close> is NaN. How pandas
  reads a number out of a string is outside the repository and is the parameter
  \<open>parse\<close>. Quantities are real numbers: rounding and an infinity written in a file
  are outside the model.
\<close>

fun to_numeric :: "(string \<Rightarrow> real option) \<Rightarrow> cell \<Rightarrow> real option" where
  "to_numeric parse Missing = None"
| "to_numeric parse (Text s) = parse s"
| "to_numeric parse (Number r) = Some r"

text \<open>
  Lines 62 to 66 of \<^verbatim>\<open>to_long\<close> on one line of the table: the brand is made a string
  and stripped, the quantity is coerced, the year is stamped, and
  \<^verbatim>\<open>dropna(subset=["Brand", "Retail"])\<close> drops the line when one of the two is NaN. The
  brand is a string by then, which is never NaN, so only the quantity decides.
\<close>

definition long_row ::
  "(real \<Rightarrow> string) \<Rightarrow> (string \<Rightarrow> real option) \<Rightarrow> int \<Rightarrow> cell \<times> cell \<Rightarrow> row option" where
  "long_row fmt parse year bq =
     (let b = strip (astype_str fmt (fst bq)) in
      case to_numeric parse (snd bq) of
        None \<Rightarrow> None
      | Some q \<Rightarrow> Some \<lparr>Year = year, Brand = b, Retail = q\<rparr>)"

definition column_cells :: "frame \<Rightarrow> string \<Rightarrow> cell list" where
  "column_cells df c = (case map_of df c of Some cells \<Rightarrow> cells | None \<Rightarrow> [])"

text \<open>
  \<^verbatim>\<open>to_long\<close>. The selection \<^verbatim>\<open>df[[brand_col, retail_col]]\<close> raises
  \<^verbatim>\<open>KeyError\<close> when a resolved column is \<^verbatim>\<open>None\<close>. When both resolve to the same
  column, the renaming leaves no column \<^verbatim>\<open>Brand\<close> and \<^verbatim>\<open>out["Brand"]\<close> raises
  \<^verbatim>\<open>KeyError\<close>. When a resolved name stands for several columns, \<^verbatim>\<open>out["Brand"]\<close>
  (or \<^verbatim>\<open>out["Retail"]\<close>) is a table and not a column, and \<^verbatim>\<open>.str\<close> (or
  \<^verbatim>\<open>pd.to_numeric\<close>) raises.
\<close>

definition to_long ::
  "(real \<Rightarrow> string) \<Rightarrow> (string \<Rightarrow> real option) \<Rightarrow> frame \<Rightarrow> int \<Rightarrow> error + row list" where
  "to_long fmt parse df year =
     (let cols = columns df in
      case (pick_brand_col cols, pick_retail_col cols) of
        (None, _) \<Rightarrow> Inl KeyError
      | (_, None) \<Rightarrow> Inl KeyError
      | (Some brand_col, Some retail_col) \<Rightarrow>
          if brand_col = retail_col then Inl KeyError
          else if count_list cols brand_col > 1 then Inl AttributeError
          else if count_list cols retail_col > 1 then Inl TypeError
          else Inr (List.map_filter (long_row fmt parse year)
                      (zip (column_cells df brand_col) (column_cells df retail_col))))"

section \<open>Dataset merger\<close>

text \<open>
  A folder is the list of its files; a file is its name and the table that
  \<^verbatim>\<open>pd.read_csv\<close> reads from it. Reading the file itself is outside the model.
\<close>

record csv_file =
  fname :: string
  table :: frame

definition load_one_csv :: "csv_file \<Rightarrow> frame" where
  "load_one_csv f = map (\<lambda>(c, cells). (clean_colname c, cells)) (table f)"

definition endswith :: "string \<Rightarrow> string \<Rightarrow> bool" where
  "endswith s suffix = (length suffix \<le> length s \<and> drop (length s - length suffix) s = suffix)"

text \<open>\<^verbatim>\<open>sorted(folder.glob(pattern))\<close> for the two patterns of the source.\<close>

definition glob_sorted :: "string \<Rightarrow> csv_file list \<Rightarrow> csv_file list" where
  "glob_sorted suffix folder = sort_key fname (filter (\<lambda>f. endswith (fname f) suffix) folder)"

text \<open>Python's \<^verbatim>\<open>a or b\<close> on optional integers: \<open>a\<close> unless it is \<^verbatim>\<open>None\<close> or zero.\<close>

definition py_or :: "int option \<Rightarrow> int option \<Rightarrow> int option" where
  "py_or a b = (case a of None \<Rightarrow> b | Some y \<Rightarrow> (if y = 0 then b else Some y))"

definition file_year :: "csv_file \<Rightarrow> int option" where
  "file_year f =
     py_or (detect_year_from_filename (fname f)) (detect_year_from_columns (columns (load_one_csv f)))"

text \<open>
  The loop of \<^verbatim>\<open>load_dataset_from_folder\<close>, with \<open>parts\<close> and \<open>used\<close> as accumulators.
  An exception of \<^verbatim>\<open>to_long\<close> is not caught and ends the whole call.
\<close>

fun load_loop ::
  "(real \<Rightarrow> string) \<Rightarrow> (string \<Rightarrow> real option) \<Rightarrow> csv_file list \<Rightarrow> row list list \<Rightarrow> string list
     \<Rightarrow> error + (row list list \<times> string list)" where
  "load_loop fmt parse [] parts used = Inr (parts, used)"
| "load_loop fmt parse (f # files) parts used =
     (case file_year f of
        None \<Rightarrow> load_loop fmt parse files parts used
      | Some year \<Rightarrow>
          (case to_long fmt parse (load_one_csv f) year of
             Inl e \<Rightarrow> Inl e
           | Inr part \<Rightarrow> load_loop fmt parse files (parts @ [part]) (used @ [fname f])))"

text \<open>Lines 71 to 73: the files the loop goes through.\<close>

definition discover :: "csv_file list \<Rightarrow> csv_file list" where
  "discover folder =
     (let files = glob_sorted ''_data.csv'' folder
      in if files = [] then glob_sorted ''.csv'' folder else files)"

definition load_dataset_from_folder ::
  "(real \<Rightarrow> string) \<Rightarrow> (string \<Rightarrow> real option) \<Rightarrow> csv_file list \<Rightarrow> error + (row list \<times> string list)" where
  "load_dataset_from_folder fmt parse folder =
     (case load_loop fmt parse (discover folder) [] [] of
        Inl e \<Rightarrow> Inl e
      | Inr (parts, used) \<Rightarrow>
          if parts = [] then Inr ([], [])
          else Inr (sort_key (\<lambda>r. (Year r, - Retail r)) (concat parts), used))"

section \<open>Filter and ranking engine\<close>

text \<open>
  \<^verbatim>\<open>years = sorted(df["Year"].unique().tolist())\<close>, and \<^verbatim>\<open>Series.unique()\<close>, which
  keeps the first occurrence of each value.
\<close>

definition unique :: "'a list \<Rightarrow> 'a list" where
  "unique xs = rev (remdups (rev xs))"

definition years_of :: "row list \<Rightarrow> int list" where
  "years_of df = sort (unique (map Year df))"

text \<open>
  \<^verbatim>\<open>x.nlargest(n, "Retail")\<close>: the \<open>n\<close> lines with the largest quantity, largest
  first, lines with equal quantity in their order in the table.
\<close>

definition nlargest :: "nat \<Rightarrow> row list \<Rightarrow> row list" where
  "nlargest n x = take n (sort_key (\<lambda>r. - Retail r) x)"

datatype brand_mode = TopPerYear | ManualBrands

record controls =
  selected_years :: "int list"
  topn :: nat
  mode :: brand_mode
  manual_brands :: "string list"

text \<open>
  Lines 167 to 172: the table is grouped by year (\<open>year_group\<close> is the group of one year),
  the function of \<^verbatim>\<open>apply\<close> takes the \<open>n\<close> largest lines of each group, the results are
  put together in the order of the years, and the distinct brands are read off.
\<close>

definition year_group :: "row list \<Rightarrow> int \<Rightarrow> row list" where
  "year_group df_f y = filter (\<lambda>r. Year r = y) df_f"

definition top_of_year :: "nat \<Rightarrow> row list \<Rightarrow> int \<Rightarrow> row list" where
  "top_of_year n df_f y = nlargest n (year_group df_f y)"

definition top_brands :: "nat \<Rightarrow> row list \<Rightarrow> string list" where
  "top_brands n df_f =
     unique (map Brand (concat (map (top_of_year n df_f) (years_of df_f))))"

text \<open>Line 164: the lines of the selected years.\<close>

definition year_filter :: "controls \<Rightarrow> row list \<Rightarrow> row list" where
  "year_filter ctl df = filter (\<lambda>r. Year r \<in> set (selected_years ctl)) df"

text \<open>Lines 164 to 176.\<close>

definition filter_data :: "controls \<Rightarrow> row list \<Rightarrow> row list" where
  "filter_data ctl df =
     (let df_f = year_filter ctl df in
      case mode ctl of
        TopPerYear \<Rightarrow>
          (let tb = top_brands (topn ctl) df_f
           in filter (\<lambda>r. Brand r \<in> set tb) df_f)
      | ManualBrands \<Rightarrow>
          (if manual_brands ctl \<noteq> []
           then filter (\<lambda>r. Brand r \<in> set (manual_brands ctl)) df_f
           else df_f))"

section \<open>Metric deriver\<close>

text \<open>
  A float of the derived columns: a number, an infinity or NaN. The arithmetic is that
  of IEEE 754 on these four kinds, without rounding and without the sign of zero (a zero
  divisor counts as positive zero).
\<close>

datatype fval = Fin real | PInf | NInf | NaN

fun fneg :: "fval \<Rightarrow> fval" where
  "fneg (Fin a) = Fin (- a)"
| "fneg PInf = NInf"
| "fneg NInf = PInf"
| "fneg NaN = NaN"

fun fadd :: "fval \<Rightarrow> fval \<Rightarrow> fval" where
  "fadd (Fin a) (Fin b) = Fin (a + b)"
| "fadd NaN _ = NaN"
| "fadd _ NaN = NaN"
| "fadd PInf NInf = NaN"
| "fadd NInf PInf = NaN"
| "fadd PInf _ = PInf"
| "fadd NInf _ = NInf"
| "fadd _ PInf = PInf"
| "fadd _ NInf = NInf"

definition fsub :: "fval \<Rightarrow> fval \<Rightarrow> fval" where
  "fsub a b = fadd a (fneg b)"

text \<open>The sign of a float that is not NaN, as \<open>-1\<close>, \<open>0\<close> or \<open>1\<close>.\<close>

fun fsgn :: "fval \<Rightarrow> real" where
  "fsgn (Fin a) = sgn a"
| "fsgn PInf = 1"
| "fsgn NInf = - 1"
| "fsgn NaN = 0"

definition inf_of_sign :: "real \<Rightarrow> fval" where
  "inf_of_sign s = (if s > 0 then PInf else if s < 0 then NInf else NaN)"

fun fmul :: "fval \<Rightarrow> fval \<Rightarrow> fval" where
  "fmul (Fin a) (Fin b) = Fin (a * b)"
| "fmul NaN _ = NaN"
| "fmul _ NaN = NaN"
| "fmul a b = inf_of_sign (fsgn a * fsgn b)"

fun fdiv :: "fval \<Rightarrow> fval \<Rightarrow> fval" where
  "fdiv (Fin a) (Fin b) = (if b \<noteq> 0 then Fin (a / b) else inf_of_sign (sgn a))"
| "fdiv NaN _ = NaN"
| "fdiv _ NaN = NaN"
| "fdiv (Fin a) _ = Fin 0"
| "fdiv a (Fin b) = inf_of_sign (fsgn a * (if b < 0 then - 1 else 1))"
| "fdiv _ _ = NaN"

text \<open>The filtered view: a line of the dataset with the derived columns.\<close>

record view_row = row +
  TotalYear :: real
  Share :: fval
  YoY_Change :: fval
  YoY_Growth :: fval

text \<open>
  Line 181: \<^verbatim>\<open>groupby("Year")["Retail"].sum()\<close>, read at one year that has lines.
\<close>

definition total_by_year :: "row list \<Rightarrow> int \<Rightarrow> real" where
  "total_by_year df_f y = sum_list (map Retail (filter (\<lambda>r. Year r = y) df_f))"

text \<open>
  Lines 182 to 186 for one line: the left join gives it the total of its own year,
  \<^verbatim>\<open>np.where\<close> chooses between the quotient (computed for every line, in floats) and
  NaN, and the two year-over-year columns start as NaN.
\<close>

definition share_of :: "real \<Rightarrow> real \<Rightarrow> fval" where
  "share_of q t = (if t > 0 then fmul (fdiv (Fin q) (Fin t)) (Fin 100) else NaN)"

definition with_share :: "row list \<Rightarrow> row \<Rightarrow> view_row" where
  "with_share df_f r =
     (let t = total_by_year df_f (Year r) in
      \<lparr>Year = Year r, Brand = Brand r, Retail = Retail r,
       TotalYear = t, Share = share_of (Retail r) t, YoY_Change = NaN, YoY_Growth = NaN\<rparr>)"

text \<open>
  Line 189: the pivot of the whole dataset, brand by year, each cell the sum of the
  quantities of its lines and NaN when it has none.
\<close>

definition pivot_all :: "row list \<Rightarrow> string \<Rightarrow> int \<Rightarrow> fval" where
  "pivot_all df b y =
     (let cell = filter (\<lambda>r. Brand r = b \<and> Year r = y) df
      in if cell = [] then NaN else Fin (sum_list (map Retail cell)))"

text \<open>Lines 191 to 197: one round of the loop over \<^verbatim>\<open>years[1:]\<close>.\<close>

definition yoy_step :: "row list \<Rightarrow> view_row list \<Rightarrow> int \<Rightarrow> view_row list" where
  "yoy_step df df_f y =
     (let prev = y - 1; pivot_columns = set (years_of df) in
      if prev \<in> pivot_columns \<and> y \<in> pivot_columns then
        (let change = (\<lambda>b. fsub (pivot_all df b y) (pivot_all df b prev));
             growth = (\<lambda>b. fmul (fdiv (change b) (pivot_all df b prev)) (Fin 100))
         in map (\<lambda>v. if Year v = y
                      then v\<lparr>YoY_Change := change (Brand v), YoY_Growth := growth (Brand v)\<rparr>
                      else v) df_f)
      else df_f)"

text \<open>Lines 164 to 197: from the dataset and the controls to the filtered view.\<close>

definition filtered_view :: "controls \<Rightarrow> row list \<Rightarrow> view_row list" where
  "filtered_view ctl df =
     (let df_f0 = filter_data ctl df;
          df_f = map (with_share df_f0) df_f0;
          years = years_of df
      in if length years \<ge> 2 then foldl (yoy_step df) df_f (tl years) else df_f)"

section \<open>The derived metrics as functions of the whole dataset\<close>

text \<open>
  The year-over-year figures of a brand in a year as the specification words them
  (Section 4.5, \<^verbatim>\<open>deriveYoY\<close>): read off the pivot of the complete dataset, for a
  year whose previous year is a year of the pivot too, with the float arithmetic of the
  source; undefined (NaN) for any other year. No filter takes part.
\<close>

definition yoy_change :: "row list \<Rightarrow> string \<Rightarrow> int \<Rightarrow> fval" where
  "yoy_change df b y = fsub (pivot_all df b y) (pivot_all df b (y - 1))"

definition yoy_growth :: "row list \<Rightarrow> string \<Rightarrow> int \<Rightarrow> fval" where
  "yoy_growth df b y = fmul (fdiv (yoy_change df b y) (pivot_all df b (y - 1))) (Fin 100)"

definition deriveYoY :: "row list \<Rightarrow> string \<Rightarrow> int \<Rightarrow> fval \<times> fval" where
  "deriveYoY df b y =
     (if y \<in> set (years_of df) \<and> y - 1 \<in> set (years_of df)
      then (yoy_change df b y, yoy_growth df b y) else (NaN, NaN))"

text \<open>What one round of the loop writes into a line of its year.\<close>

definition set_yoy :: "row list \<Rightarrow> view_row \<Rightarrow> view_row" where
  "set_yoy df v = v\<lparr>YoY_Change := yoy_change df (Brand v) (Year v),
                    YoY_Growth := yoy_growth df (Brand v) (Year v)\<rparr>"


section \<open>Sample inputs\<close>

text \<open>
  The inputs of the closed theorems below. The two parameters are fixed to simple
  instances: the parser reads an unsigned decimal numeral (pandas reads more), and the
  printer is not reached, since no sample has a number in a brand column.
\<close>

definition parse_digits :: "string \<Rightarrow> real option" where
  "parse_digits s =
     (if s \<noteq> [] \<and> list_all isdigit s
      then Some (real_of_int (foldl (\<lambda>a c. 10 * a + digit_val c) 0 s)) else None)"

definition fmt_plain :: "real \<Rightarrow> string" where
  "fmt_plain r = ''0.0''"

definition file_2020 :: csv_file where
  "file_2020 = \<lparr>fname = ''2020_data.csv'',
     table = [(''Brand'', [Text ''Toyota'', Text ''Honda'']),
              (''Retail  Sales'', [Number 1000, Number 500])]\<rparr>"

definition file_2021 :: csv_file where
  "file_2021 = \<lparr>fname = ''2021_data.csv'',
     table = [(''Brand'', [Text ''Toyota'', Text ''Honda'']),
              (''Retail  Sales'', [Number 1200, Number 400])]\<rparr>"

text \<open>A file with a year in its name and no valid quantity.\<close>

definition file_2019 :: csv_file where
  "file_2019 = \<lparr>fname = ''2019_data.csv'',
     table = [(''Brand'', [Text ''Toyota'', Text ''Honda'']),
              (''Retail'', [Text ''n/a'', Missing])]\<rparr>"

text \<open>A file with no year in its name or its headers.\<close>

definition file_notes :: csv_file where
  "file_notes = \<lparr>fname = ''notes.csv'',
     table = [(''Brand'', [Text ''Toyota'']), (''Retail'', [Number 3])]\<rparr>"

text \<open>A file with a single column.\<close>

definition file_one_column :: csv_file where
  "file_one_column = \<lparr>fname = ''2022_data.csv'', table = [(''Brand'', [Text ''Toyota''])]\<rparr>"

text \<open>A table with a blank brand and a missing brand, both with a valid quantity.\<close>

definition table_blank_brand :: frame where
  "table_blank_brand =
     [(''Brand'', [Text ''Toyota'', Text ''  '', Missing]),
      (''Retail'', [Number 1000, Number 5, Number 7])]"

text \<open>
  A dataset of eight brands over two years, in the order the merger leaves it. Esemka
  sold nothing in 2020, Hyundai has no line in 2020, and Toyota and Wuling change sides
  of the fifth rank from one year to the next.
\<close>

definition data_market :: "row list" where
  "data_market =
     [\<lparr>Year = 2020, Brand = ''Toyota'', Retail = 1000\<rparr>,
      \<lparr>Year = 2020, Brand = ''Honda'', Retail = 500\<rparr>,
      \<lparr>Year = 2020, Brand = ''Daihatsu'', Retail = 400\<rparr>,
      \<lparr>Year = 2020, Brand = ''Suzuki'', Retail = 300\<rparr>,
      \<lparr>Year = 2020, Brand = ''Mitsubishi'', Retail = 200\<rparr>,
      \<lparr>Year = 2020, Brand = ''Wuling'', Retail = 100\<rparr>,
      \<lparr>Year = 2020, Brand = ''Esemka'', Retail = 0\<rparr>,
      \<lparr>Year = 2021, Brand = ''Honda'', Retail = 1200\<rparr>,
      \<lparr>Year = 2021, Brand = ''Daihatsu'', Retail = 450\<rparr>,
      \<lparr>Year = 2021, Brand = ''Suzuki'', Retail = 350\<rparr>,
      \<lparr>Year = 2021, Brand = ''Mitsubishi'', Retail = 250\<rparr>,
      \<lparr>Year = 2021, Brand = ''Wuling'', Retail = 150\<rparr>,
      \<lparr>Year = 2021, Brand = ''Toyota'', Retail = 120\<rparr>,
      \<lparr>Year = 2021, Brand = ''Hyundai'', Retail = 50\<rparr>,
      \<lparr>Year = 2021, Brand = ''Esemka'', Retail = 5\<rparr>]"

text \<open>States of the sidebar; the slider of the source offers 5 to 8 for these brands.\<close>

definition ctl_top5 :: controls where
  "ctl_top5 = \<lparr>selected_years = [2020, 2021], topn = 5, mode = TopPerYear, manual_brands = []\<rparr>"

definition ctl_top5_2021 :: controls where
  "ctl_top5_2021 = \<lparr>selected_years = [2021], topn = 5, mode = TopPerYear, manual_brands = []\<rparr>"

definition ctl_manual_none :: controls where
  "ctl_manual_none =
     \<lparr>selected_years = [2020, 2021], topn = 5, mode = ManualBrands, manual_brands = []\<rparr>"

definition ctl_manual_two :: controls where
  "ctl_manual_two =
     \<lparr>selected_years = [2020, 2021], topn = 5, mode = ManualBrands,
      manual_brands = [''Esemka'', ''Hyundai'']\<rparr>"

section \<open>Properties of the year resolver and the merger\<close>

lemma isdigit_digit_val: "isdigit c \<Longrightarrow> 0 \<le> digit_val c \<and> digit_val c \<le> 9"
  by (auto simp: isdigit_def digit_val_def)

lemma search_year_range: "search_year s = Some y \<Longrightarrow> 2000 \<le> y \<and> y \<le> 2099"
proof (induction s rule: search_year.induct)
  case (1 a b c d rest)
  then show ?case
    using isdigit_digit_val [of c] isdigit_digit_val [of d]
    by (auto split: if_splits)
qed simp_all

lemma detect_year_from_columns_range:
  "detect_year_from_columns cols = Some y \<Longrightarrow> 2000 \<le> y \<and> y \<le> 2099"
  by (induction cols) (auto split: option.splits dest: search_year_range)

lemma file_year_range: "file_year f = Some y \<Longrightarrow> 2000 \<le> y \<and> y \<le> 2099"
  unfolding file_year_def py_or_def detect_year_from_filename_def
  by (auto split: option.splits if_splits
      dest: search_year_range detect_year_from_columns_range)

lemma long_row_Year: "long_row fmt parse year bq = Some r \<Longrightarrow> Year r = year"
  by (auto simp: long_row_def Let_def split: option.splits)

lemma set_map_filter: "set (List.map_filter f xs) = {y. \<exists>x \<in> set xs. f x = Some y}"
  by (induction xs) (auto simp: List.map_filter_simps split: option.splits)

lemma to_long_rows:
  "to_long fmt parse df year = Inr part \<Longrightarrow> r \<in> set part \<Longrightarrow>
   \<exists>bq. long_row fmt parse year bq = Some r"
  unfolding to_long_def Let_def
  by (auto split: option.splits if_splits simp: set_map_filter) blast

lemma to_long_Year: "to_long fmt parse df year = Inr part \<Longrightarrow> r \<in> set part \<Longrightarrow> Year r = year"
  using to_long_rows long_row_Year by blast

lemma load_loop_years:
  "load_loop fmt parse files parts used = Inr (parts', used') \<Longrightarrow>
   (\<forall>p \<in> set parts. \<forall>r \<in> set p. 2000 \<le> Year r \<and> Year r \<le> 2099) \<Longrightarrow>
   (\<forall>p \<in> set parts'. \<forall>r \<in> set p. 2000 \<le> Year r \<and> Year r \<le> 2099)"
proof (induction files arbitrary: parts used)
  case Nil
  then show ?case by simp
next
  case (Cons f files)
  show ?case
  proof (cases "file_year f")
    case None
    with Cons show ?thesis by simp
  next
    case (Some year)
    note yr = file_year_range [OF Some]
    show ?thesis
    proof (cases "to_long fmt parse (load_one_csv f) year")
      case (Inl e)
      with Cons.prems Some show ?thesis by simp
    next
      case (Inr part)
      have "\<forall>r \<in> set part. Year r = year"
        using to_long_Year [OF Inr] by blast
      with yr Cons.prems(2)
      have inv: "\<forall>p \<in> set (parts @ [part]). \<forall>r \<in> set p. 2000 \<le> Year r \<and> Year r \<le> 2099"
        by auto
      from Cons.prems(1) Some Inr
      have "load_loop fmt parse files (parts @ [part]) (used @ [fname f]) = Inr (parts', used')"
        by simp
      from Cons.IH [OF this inv] show ?thesis .
    qed
  qed
qed

text \<open>
  Claim C10. Every record of the merged dataset has a year between 2000 and 2099: a year
  comes only from a match of \<^verbatim>\<open>20\<close> and two digits, in the file's name or in a column
  header, and every record of a file carries the year of its file.
\<close>

theorem merged_years_in_range:
  assumes "load_dataset_from_folder fmt parse folder = Inr (data, used)"
      and "r \<in> set data"
    shows "2000 \<le> Year r \<and> Year r \<le> 2099"
proof -
  from assms(1) obtain parts used' where
    loop: "load_loop fmt parse (discover folder) [] [] = Inr (parts, used')"
    and data: "data = (if parts = [] then [] else sort_key (\<lambda>r. (Year r, - Retail r)) (concat parts))"
    by (auto simp: load_dataset_from_folder_def split: sum.splits prod.splits if_splits)
  have "\<forall>p \<in> set parts. \<forall>r \<in> set p. 2000 \<le> Year r \<and> Year r \<le> 2099"
    using load_loop_years [OF loop] by simp
  moreover from assms(2) data have "r \<in> set (concat parts)"
    by (auto split: if_splits)
  ultimately show ?thesis by auto
qed

text \<open>
  The two files of the scenario of the specification merge into four records, sorted by
  year and then by falling quantity, and the record of Honda in 2021 lies in the range.
\<close>

theorem merged_years_in_range_witness:
  "load_dataset_from_folder fmt_plain parse_digits [file_2021, file_2020]
     = Inr ([\<lparr>Year = 2020, Brand = ''Toyota'', Retail = 1000\<rparr>,
             \<lparr>Year = 2020, Brand = ''Honda'', Retail = 500\<rparr>,
             \<lparr>Year = 2021, Brand = ''Toyota'', Retail = 1200\<rparr>,
             \<lparr>Year = 2021, Brand = ''Honda'', Retail = 400\<rparr>],
            [''2020_data.csv'', ''2021_data.csv''])
   \<and> 2000 \<le> Year \<lparr>Year = 2021, Brand = ''Honda'', Retail = 400\<rparr>
   \<and> Year \<lparr>Year = 2021, Brand = ''Honda'', Retail = 400\<rparr> \<le> 2099"
proof -
  have run: "load_dataset_from_folder fmt_plain parse_digits [file_2021, file_2020]
     = Inr ([\<lparr>Year = 2020, Brand = ''Toyota'', Retail = 1000\<rparr>,
             \<lparr>Year = 2020, Brand = ''Honda'', Retail = 500\<rparr>,
             \<lparr>Year = 2021, Brand = ''Toyota'', Retail = 1200\<rparr>,
             \<lparr>Year = 2021, Brand = ''Honda'', Retail = 400\<rparr>],
            [''2020_data.csv'', ''2021_data.csv''])"
    by code_simp
  from merged_years_in_range [OF run, of "\<lparr>Year = 2021, Brand = ''Honda'', Retail = 400\<rparr>"] run
  show ?thesis by simp
qed

text \<open>
  Claim C3 says that every record of \<^verbatim>\<open>to_long\<close> has a non-empty brand and that a line
  whose brand is blank or missing is dropped. The source makes the brand a string before
  \<^verbatim>\<open>dropna\<close> looks at it, so \<^verbatim>\<open>dropna\<close> never finds a missing brand, and nothing tests
  for the empty string: on the table below the line with the blank brand is kept with
  the brand \<^verbatim>\<open>""\<close> and the line with the missing brand is kept with the brand
  \<^verbatim>\<open>"nan"\<close>.
\<close>

theorem to_long_keeps_blank_brand:
  "to_long fmt parse table_blank_brand 2020
     = Inr [\<lparr>Year = 2020, Brand = ''Toyota'', Retail = 1000\<rparr>,
            \<lparr>Year = 2020, Brand = '''', Retail = 5\<rparr>,
            \<lparr>Year = 2020, Brand = ''nan'', Retail = 7\<rparr>]"
  by (simp add: to_long_def table_blank_brand_def columns_def pick_brand_col_def pick_retail_col_def
      lower_def lower_char_def column_cells_def List.map_filter_simps long_row_def strip_def
      isspace_def)

text \<open>
  A table with fewer than two columns never gets through \<^verbatim>\<open>to_long\<close>: either a column
  resolves to \<^verbatim>\<open>None\<close>, or both resolve to the only column.
\<close>

lemma to_long_few_columns:
  "length (columns df) < 2 \<Longrightarrow> to_long fmt parse df year = Inl KeyError"
proof -
  assume "length (columns df) < 2"
  then consider "columns df = []" | c where "columns df = [c]"
    by (cases "columns df"; cases "tl (columns df)") auto
  then show ?thesis
  proof cases
    case 1
    then show ?thesis by (simp add: to_long_def pick_brand_col_def)
  next
    case 2
    then show ?thesis
      by (auto simp: to_long_def pick_brand_col_def pick_retail_col_def split: option.splits)
  qed
qed

text \<open>
  Claim C5 says that column resolution never raises, that the quantity column of a table
  with fewer than two columns is undefined, and that the merger then skips the file
  instead of failing. The first two hold; the third does not: \<^verbatim>\<open>to_long\<close> selects the
  columns without looking at the \<^verbatim>\<open>None\<close>, the selection raises \<^verbatim>\<open>KeyError\<close>, and
  \<^verbatim>\<open>load_dataset_from_folder\<close> does not catch it.
\<close>

theorem one_column_file_raises:
  "pick_retail_col (columns (load_one_csv file_one_column)) = None
   \<and> load_dataset_from_folder fmt_plain parse_digits [file_one_column] = Inl KeyError"
  by code_simp

lemma load_loop_used:
  "load_loop fmt parse files parts used = Inr (parts', used') \<Longrightarrow>
   used' = used @ map fname (filter (\<lambda>f. file_year f \<noteq> None) files)
   \<and> length parts' = length parts + length (filter (\<lambda>f. file_year f \<noteq> None) files)"
proof (induction files arbitrary: parts used)
  case Nil
  then show ?case by simp
next
  case (Cons f files)
  show ?case
  proof (cases "file_year f")
    case None
    with Cons show ?thesis by simp
  next
    case (Some year)
    with Cons.prems obtain part where
      part: "to_long fmt parse (load_one_csv f) year = Inr part"
      and rest: "load_loop fmt parse files (parts @ [part]) (used @ [fname f]) = Inr (parts', used')"
      by (cases "to_long fmt parse (load_one_csv f) year") auto
    from Cons.IH [OF rest] Some show ?thesis by simp
  qed
qed

lemma load_loop_no_year:
  "\<forall>f \<in> set files. file_year f = None \<Longrightarrow> load_loop fmt parse files parts used = Inr (parts, used)"
  by (induction files) auto

text \<open>
  Claim C4 says that the used-files report holds exactly the files that gave at least one
  valid record. The source appends a file's name as soon as its year is resolved and
  never looks at the number of its records: a file with a year and no valid quantity is
  reported, next to an empty dataset.
\<close>

theorem empty_file_is_reported_used:
  "load_dataset_from_folder fmt_plain parse_digits [file_2019] = Inr ([], [''2019_data.csv''])"
  by code_simp

text \<open>
  Claim C4 as amended. When the merger returns, the used-files report holds exactly the
  discovered files whose year is resolved, in the order of the loop, whether or not they
  give a record; and when no discovered file resolves a year, the merger returns the
  empty dataset with the empty report.
\<close>

theorem used_files_are_files_with_year:
  "(load_dataset_from_folder fmt parse folder = Inr (data, used) \<longrightarrow>
      used = map fname (filter (\<lambda>f. file_year f \<noteq> None) (discover folder)))
   \<and> ((\<forall>f \<in> set (discover folder). file_year f = None) \<longrightarrow>
      load_dataset_from_folder fmt parse folder = Inr ([], []))"
proof (intro conjI impI)
  assume res: "load_dataset_from_folder fmt parse folder = Inr (data, used)"
  then obtain parts used' where
    loop: "load_loop fmt parse (discover folder) [] [] = Inr (parts, used')"
    and used: "used = (if parts = [] then [] else used')"
    by (auto simp: load_dataset_from_folder_def split: sum.splits prod.splits if_splits)
  from load_loop_used [OF loop]
  have u: "used' = map fname (filter (\<lambda>f. file_year f \<noteq> None) (discover folder))"
    and l: "length parts = length (filter (\<lambda>f. file_year f \<noteq> None) (discover folder))"
    by simp_all
  show "used = map fname (filter (\<lambda>f. file_year f \<noteq> None) (discover folder))"
  proof (cases "parts = []")
    case True
    with l have "filter (\<lambda>f. file_year f \<noteq> None) (discover folder) = []" by simp
    with used True show ?thesis by simp
  next
    case False
    with used u show ?thesis by simp
  qed
next
  assume "\<forall>f \<in> set (discover folder). file_year f = None"
  from load_loop_no_year [OF this]
  show "load_dataset_from_folder fmt parse folder = Inr ([], [])"
    by (simp add: load_dataset_from_folder_def)
qed

text \<open>
  Both halves at concrete folders: the file of 2019 is reported although it gives no
  record, and a folder whose only file has no year gives the empty dataset and report.
\<close>

theorem used_files_are_files_with_year_witness:
  "load_dataset_from_folder fmt_plain parse_digits [file_2019] = Inr ([], [''2019_data.csv''])
   \<and> map fname (filter (\<lambda>f. file_year f \<noteq> None) (discover [file_2019])) = [''2019_data.csv'']
   \<and> map file_year (discover [file_notes]) = [None]
   \<and> load_dataset_from_folder fmt_plain parse_digits [file_notes] = Inr ([], [])"
proof -
  have run: "load_dataset_from_folder fmt_plain parse_digits [file_2019] = Inr ([], [''2019_data.csv''])"
    by code_simp
  have years: "map file_year (discover [file_notes]) = [None]"
    by code_simp
  then have none: "\<forall>f \<in> set (discover [file_notes]). file_year f = None"
    by (metis (no_types, lifting) image_set imageI empty_iff insert_iff list.simps(15) set_empty2)
  from used_files_are_files_with_year [of fmt_plain parse_digits "[file_2019]" "[]" "[''2019_data.csv'']"] run
  have a: "map fname (filter (\<lambda>f. file_year f \<noteq> None) (discover [file_2019])) = [''2019_data.csv'']"
    by simp
  from used_files_are_files_with_year [of fmt_plain parse_digits "[file_notes]"] none
  have b: "load_dataset_from_folder fmt_plain parse_digits [file_notes] = Inr ([], [])"
    by blast
  from run a years b show ?thesis by blast
qed

section \<open>The filtered view, line by line\<close>

lemma filter_data_subset: "set (filter_data ctl df) \<subseteq> set df"
  by (auto simp: filter_data_def year_filter_def Let_def split: brand_mode.splits)

lemma set_years_of: "set (years_of df) = Year ` set df"
  by (simp add: years_of_def unique_def)

lemma sorted_years_of: "sorted (years_of df)"
  by (simp add: years_of_def)

lemma yoy_step_map:
  "yoy_step df vs y =
     map (\<lambda>v. if Year v = y \<and> y \<in> set (years_of df) \<and> y - 1 \<in> set (years_of df)
               then set_yoy df v else v) vs"
  by (auto simp: yoy_step_def Let_def set_yoy_def yoy_change_def yoy_growth_def)

text \<open>The loop over any list of years writes the lines of those years that have a previous year.\<close>

lemma foldl_yoy_step_map:
  "foldl (yoy_step df) vs ys =
     map (\<lambda>v. if Year v \<in> set ys \<and> Year v \<in> set (years_of df) \<and> Year v - 1 \<in> set (years_of df)
               then set_yoy df v else v) vs"
proof (induction ys rule: rev_induct)
  case Nil
  then show ?case by simp
next
  case (snoc y ys)
  have "foldl (yoy_step df) vs (ys @ [y]) = yoy_step df (foldl (yoy_step df) vs ys) y"
    by simp
  also have "\<dots> = yoy_step df
     (map (\<lambda>v. if Year v \<in> set ys \<and> Year v \<in> set (years_of df) \<and> Year v - 1 \<in> set (years_of df)
               then set_yoy df v else v) vs) y"
    by (simp only: snoc.IH)
  also have "\<dots> = map (\<lambda>v. if Year v \<in> set (ys @ [y]) \<and> Year v \<in> set (years_of df)
                           \<and> Year v - 1 \<in> set (years_of df)
               then set_yoy df v else v) vs"
    unfolding yoy_step_map map_map
    by (rule map_cong [OF refl]) (auto simp: set_yoy_def)
  finally show ?case .
qed

text \<open>The first year, which the loop leaves out, has no previous year among the years.\<close>

lemma hd_years_no_prev:
  assumes "years_of df = y0 # ys"
  shows "y0 - 1 \<notin> set (years_of df)"
proof -
  have "sorted (y0 # ys)" using sorted_years_of [of df] assms by simp
  then have "\<forall>y \<in> set (y0 # ys). y0 \<le> y" by auto
  then show ?thesis using assms by auto
qed

lemma foldl_yoy_all_years:
  assumes "\<forall>v \<in> set vs. Year v \<in> set (years_of df)"
  shows "(if length (years_of df) \<ge> 2 then foldl (yoy_step df) vs (tl (years_of df)) else vs) =
     map (\<lambda>v. if Year v - 1 \<in> set (years_of df) then set_yoy df v else v) vs"
proof (cases "years_of df")
  case Nil
  with assms have "vs = []" by (cases vs) auto
  with Nil show ?thesis by simp
next
  case (Cons y0 ys)
  note np = hd_years_no_prev [OF Cons]
  show ?thesis
  proof (cases "ys = []")
    case True
    with Cons assms np have "\<forall>v \<in> set vs. Year v - 1 \<notin> set (years_of df)" by auto
    with True Cons show ?thesis by (auto intro!: map_idI [symmetric])
  next
    case False
    then have len: "length (years_of df) \<ge> 2" using Cons by (cases ys) auto
    have "foldl (yoy_step df) vs ys =
       map (\<lambda>v. if Year v - 1 \<in> set (years_of df) then set_yoy df v else v) vs"
      unfolding foldl_yoy_step_map
    proof (rule map_cong [OF refl])
      fix v assume "v \<in> set vs"
      with assms have "Year v \<in> set (years_of df)" by blast
      with Cons np have "Year v - 1 \<in> set (years_of df) \<Longrightarrow> Year v \<in> set ys"
        by auto
      with \<open>Year v \<in> set (years_of df)\<close>
      show "(if Year v \<in> set ys \<and> Year v \<in> set (years_of df) \<and> Year v - 1 \<in> set (years_of df)
             then set_yoy df v else v) =
            (if Year v - 1 \<in> set (years_of df) then set_yoy df v else v)"
        by auto
    qed
    with len Cons show ?thesis by simp
  qed
qed

text \<open>
  The filtered view as one pass over the filtered lines: what lines 164 to 197 leave in
  each line.
\<close>

lemma filtered_view_rows:
  "filtered_view ctl df =
     map (\<lambda>r. \<lparr>Year = Year r, Brand = Brand r, Retail = Retail r,
               TotalYear = total_by_year (filter_data ctl df) (Year r),
               Share = share_of (Retail r) (total_by_year (filter_data ctl df) (Year r)),
               YoY_Change = fst (deriveYoY df (Brand r) (Year r)),
               YoY_Growth = snd (deriveYoY df (Brand r) (Year r))\<rparr>)
       (filter_data ctl df)"
proof -
  let ?vs = "map (with_share (filter_data ctl df)) (filter_data ctl df)"
  have yrs: "\<forall>v \<in> set ?vs. Year v \<in> set (years_of df)"
    using filter_data_subset [of ctl df] by (auto simp: set_years_of with_share_def Let_def)
  have "filtered_view ctl df =
      (if length (years_of df) \<ge> 2 then foldl (yoy_step df) ?vs (tl (years_of df)) else ?vs)"
    by (simp add: filtered_view_def Let_def)
  also have "\<dots> = map (\<lambda>v. if Year v - 1 \<in> set (years_of df) then set_yoy df v else v) ?vs"
    by (rule foldl_yoy_all_years [OF yrs])
  also have "\<dots> = map (\<lambda>r. \<lparr>Year = Year r, Brand = Brand r, Retail = Retail r,
               TotalYear = total_by_year (filter_data ctl df) (Year r),
               Share = share_of (Retail r) (total_by_year (filter_data ctl df) (Year r)),
               YoY_Change = fst (deriveYoY df (Brand r) (Year r)),
               YoY_Growth = snd (deriveYoY df (Brand r) (Year r))\<rparr>)
       (filter_data ctl df)"
    unfolding map_map
  proof (rule map_cong [OF refl])
    fix r assume "r \<in> set (filter_data ctl df)"
    then have "Year r \<in> set (years_of df)"
      using filter_data_subset [of ctl df] by (auto simp: set_years_of)
    then show "((\<lambda>v. if Year v - 1 \<in> set (years_of df) then set_yoy df v else v) \<circ>
                with_share (filter_data ctl df)) r =
          \<lparr>Year = Year r, Brand = Brand r, Retail = Retail r,
               TotalYear = total_by_year (filter_data ctl df) (Year r),
               Share = share_of (Retail r) (total_by_year (filter_data ctl df) (Year r)),
               YoY_Change = fst (deriveYoY df (Brand r) (Year r)),
               YoY_Growth = snd (deriveYoY df (Brand r) (Year r))\<rparr>"
      by (simp add: with_share_def Let_def set_yoy_def deriveYoY_def)
  qed
  finally show ?thesis .
qed

lemma in_filtered_view:
  assumes "v \<in> set (filtered_view ctl df)"
  shows "\<exists>r \<in> set (filter_data ctl df).
     v = \<lparr>Year = Year r, Brand = Brand r, Retail = Retail r,
          TotalYear = total_by_year (filter_data ctl df) (Year r),
          Share = share_of (Retail r) (total_by_year (filter_data ctl df) (Year r)),
          YoY_Change = fst (deriveYoY df (Brand r) (Year r)),
          YoY_Growth = snd (deriveYoY df (Brand r) (Year r))\<rparr>"
  using assms unfolding filtered_view_rows by auto

section \<open>Properties of the year-over-year figures\<close>

text \<open>
  Claim C6. The year-over-year change and growth of every line of the filtered view are
  the figures of the line's brand and year in the pivot of the whole dataset, whatever
  the controls select: the right-hand side does not mention the controls.
\<close>

theorem yoy_from_full_dataset:
  "v \<in> set (filtered_view ctl df) \<Longrightarrow>
   (YoY_Change v, YoY_Growth v) = deriveYoY df (Brand v) (Year v)"
  by (drule in_filtered_view) auto

text \<open>
  With 2020 deselected and five brands kept, the line of Honda in 2021 still carries the
  change against its quantity of 2020.
\<close>

theorem yoy_from_full_dataset_witness:
  "\<lparr>Year = 2021, Brand = ''Honda'', Retail = 1200, TotalYear = 2400, Share = Fin 50,
     YoY_Change = Fin 700, YoY_Growth = Fin 140\<rparr> \<in> set (filtered_view ctl_top5_2021 data_market)
   \<and> deriveYoY data_market ''Honda'' 2021 = (Fin 700, Fin 140)"
proof -
  have mem: "\<lparr>Year = 2021, Brand = ''Honda'', Retail = 1200, TotalYear = 2400, Share = Fin 50,
     YoY_Change = Fin 700, YoY_Growth = Fin 140\<rparr> \<in> set (filtered_view ctl_top5_2021 data_market)"
    by code_simp
  from yoy_from_full_dataset [OF mem] mem show ?thesis by simp
qed

text \<open>
  The two cases of claim C1 on the figures themselves. A brand without lines in the
  previous year has neither figure. A brand whose lines of the previous year sum to zero
  has the change, and its growth is the float quotient by zero: an infinity with the sign
  of the change, NaN only when the change is zero too.
\<close>

lemma yoy_absent_previous_year:
  "pivot_all df b (y - 1) = NaN \<Longrightarrow> yoy_change df b y = NaN \<and> yoy_growth df b y = NaN"
  by (cases "pivot_all df b y") (simp_all add: yoy_change_def yoy_growth_def fsub_def)

lemma yoy_zero_previous_year:
  "pivot_all df b y = Fin q \<Longrightarrow> pivot_all df b (y - 1) = Fin 0 \<Longrightarrow>
   yoy_change df b y = Fin q \<and> yoy_growth df b y = inf_of_sign q"
  by (cases "q > 0"; cases "q < 0")
     (simp_all add: yoy_change_def yoy_growth_def fsub_def inf_of_sign_def)

text \<open>
  Claim C1 says that a brand present with the value zero in the previous year has a
  defined change and an undefined growth, never an infinity. On the dataset below, with
  both years and the brands Esemka and Hyundai selected, Esemka sold 0 units in 2020 and
  5 in 2021: its change is 5 and its growth is plus infinity, since line 194 divides by
  the previous year's value without a test for zero. Hyundai, absent in 2020, has neither
  figure, as the claim says.
\<close>

theorem yoy_growth_zero_base_is_infinite:
  "filtered_view ctl_manual_two data_market =
     [\<lparr>Year = 2020, Brand = ''Esemka'', Retail = 0, TotalYear = 0, Share = NaN,
       YoY_Change = NaN, YoY_Growth = NaN\<rparr>,
      \<lparr>Year = 2021, Brand = ''Hyundai'', Retail = 50, TotalYear = 55, Share = Fin (1000 / 11),
       YoY_Change = NaN, YoY_Growth = NaN\<rparr>,
      \<lparr>Year = 2021, Brand = ''Esemka'', Retail = 5, TotalYear = 55, Share = Fin (100 / 11),
       YoY_Change = Fin 5, YoY_Growth = PInf\<rparr>]"
  by code_simp

section \<open>Properties of the share\<close>









section \<open>Properties of the brand selection\<close>

text \<open>
  Claim C2 says that the manual mode with an empty list of brands gives an empty view.
  The source filters by the list only when the list is not empty (line 175), so the empty
  list keeps every brand: all fifteen lines of the dataset stay.
\<close>

theorem manual_empty_keeps_all_brands:
  "map Brand (filtered_view ctl_manual_none data_market)
     = [''Toyota'', ''Honda'', ''Daihatsu'', ''Suzuki'', ''Mitsubishi'', ''Wuling'', ''Esemka'',
        ''Honda'', ''Daihatsu'', ''Suzuki'', ''Mitsubishi'', ''Wuling'', ''Toyota'', ''Hyundai'',
        ''Esemka'']"
  by code_simp

text \<open>
  Claim C2 as amended. In the manual mode with an empty list of brands no brand filter is
  applied: the lines of the filtered view are the lines of the dataset whose year is
  selected, of every brand, in their order.
\<close>

theorem manual_empty_is_no_brand_filter:
  assumes "mode ctl = ManualBrands" and "manual_brands ctl = []"
  shows "map (\<lambda>v. (Year v, Brand v, Retail v)) (filtered_view ctl df)
     = map (\<lambda>r. (Year r, Brand r, Retail r)) (filter (\<lambda>r. Year r \<in> set (selected_years ctl)) df)"
proof -
  from assms have "filter_data ctl df = filter (\<lambda>r. Year r \<in> set (selected_years ctl)) df"
    by (simp add: filter_data_def year_filter_def)
  then show ?thesis
    unfolding filtered_view_rows by (simp add: comp_def)
qed

theorem manual_empty_is_no_brand_filter_witness:
  "mode ctl_manual_none = ManualBrands \<and> manual_brands ctl_manual_none = []
   \<and> map (\<lambda>v. (Year v, Brand v, Retail v)) (filtered_view ctl_manual_none data_market)
     = map (\<lambda>r. (Year r, Brand r, Retail r)) data_market"
proof -
  have m: "mode ctl_manual_none = ManualBrands" and e: "manual_brands ctl_manual_none = []"
    by (simp_all add: ctl_manual_none_def)
  have "filter (\<lambda>r. Year r \<in> set (selected_years ctl_manual_none)) data_market = data_market"
    by code_simp
  with manual_empty_is_no_brand_filter [OF m e, of data_market] m e
  show ?thesis by simp
qed

text \<open>
  What \<^verbatim>\<open>nlargest\<close> returns: at most \<open>n\<close> lines of the table, largest quantity first,
  and every line with a larger quantity than a returned line is returned too.
\<close>

lemma length_nlargest: "length (nlargest n x) = min n (length x)"
  by (simp add: nlargest_def min.commute)

lemma set_nlargest: "set (nlargest n x) \<subseteq> set x"
  using set_take_subset [of n "sort_key (\<lambda>r. - Retail r) x"] by (simp add: nlargest_def)

lemma nlargest_descending: "sorted (rev (map Retail (nlargest n x)))"
proof -
  let ?s = "sort_key (\<lambda>r. - Retail r) x"
  have "sorted (map (\<lambda>r. - Retail r) ?s)"
    by (rule sorted_sort_key)
  then have "sorted_wrt (\<lambda>a b. Retail b \<le> Retail a) ?s"
    by (simp add: sorted_wrt_map)
  then have "sorted_wrt (\<lambda>a b. Retail b \<le> Retail a) (take n ?s)"
    by (rule sorted_wrt_take)
  then show ?thesis
    by (simp add: nlargest_def rev_map [symmetric] sorted_wrt_rev sorted_wrt_map)
qed

lemma nlargest_ranked:
  assumes "a \<in> set (nlargest n x)" and "b \<in> set x" and "Retail a < Retail b"
  shows "b \<in> set (nlargest n x)"
proof -
  let ?s = "sort_key (\<lambda>r. - Retail r) x"
  have srt: "sorted (map (\<lambda>r. - Retail r) ?s)" by (rule sorted_sort_key)
  from assms(1) obtain i where i: "i < n" "i < length ?s" "a = ?s ! i"
    by (auto simp: nlargest_def in_set_conv_nth)
  from assms(2) have "b \<in> set ?s" by simp
  then obtain j where j: "j < length ?s" "b = ?s ! j"
    by (metis in_set_conv_nth)
  have "j < i"
  proof (rule ccontr)
    assume "\<not> j < i"
    then have "i \<le> j" by simp
    with srt j(1) have "map (\<lambda>r. - Retail r) ?s ! i \<le> map (\<lambda>r. - Retail r) ?s ! j"
      by (intro sorted_nth_mono) simp_all
    with i j have "Retail b \<le> Retail a" by simp
    with assms(3) show False by simp
  qed
  with i(1) j have "j < n" "b = take n ?s ! j" "j < length (take n ?s)" by simp_all
  then show ?thesis unfolding nlargest_def by (metis nth_mem)
qed

lemma set_unique: "set (unique xs) = set xs"
  by (simp add: unique_def)


lemma set_top_brands:
  "set (top_brands n df_f) = (\<Union>y \<in> Year ` set df_f. Brand ` set (top_of_year n df_f y))"
  by (auto simp: top_brands_def set_unique set_years_of)

lemma top_of_year_no_lines: "y \<notin> Year ` set df_f \<Longrightarrow> top_of_year n df_f y = []"
proof -
  assume "y \<notin> Year ` set df_f"
  then have "year_group df_f y = []" by (auto simp: year_group_def filter_empty_conv)
  then show ?thesis by (simp add: top_of_year_def nlargest_def)
qed

lemma top_brands_selected_years:
  assumes "Year ` set df_f \<subseteq> set sel"
  shows "set (top_brands n df_f) = (\<Union>y \<in> set sel. Brand ` set (top_of_year n df_f y))"
proof -
  have "(\<Union>y \<in> set sel. Brand ` set (top_of_year n df_f y))
      = (\<Union>y \<in> Year ` set df_f. Brand ` set (top_of_year n df_f y))"
  proof (intro equalityI subsetI)
    fix b assume "b \<in> (\<Union>y \<in> set sel. Brand ` set (top_of_year n df_f y))"
    then obtain y where y: "y \<in> set sel" "b \<in> Brand ` set (top_of_year n df_f y)" by blast
    then have "top_of_year n df_f y \<noteq> []" by auto
    with top_of_year_no_lines have "y \<in> Year ` set df_f" by blast
    with y show "b \<in> (\<Union>y \<in> Year ` set df_f. Brand ` set (top_of_year n df_f y))" by blast
  next
    fix b assume "b \<in> (\<Union>y \<in> Year ` set df_f. Brand ` set (top_of_year n df_f y))"
    with assms show "b \<in> (\<Union>y \<in> set sel. Brand ` set (top_of_year n df_f y))" by blast
  qed
  then show ?thesis by (simp add: set_top_brands)
qed


lemma filter_data_top:
  "mode ctl = TopPerYear \<Longrightarrow>
   filter_data ctl df =
     filter (\<lambda>r. \<exists>y \<in> set (selected_years ctl).
                 Brand r \<in> Brand ` set (top_of_year (topn ctl) (year_filter ctl df) y))
       (year_filter ctl df)"
proof -
  assume m: "mode ctl = TopPerYear"
  have "Year ` set (year_filter ctl df) \<subseteq> set (selected_years ctl)"
    by (auto simp: year_filter_def)
  note eq = top_brands_selected_years [OF this, of "topn ctl"]
  from m have "filter_data ctl df =
      filter (\<lambda>r. Brand r \<in> set (top_brands (topn ctl) (year_filter ctl df))) (year_filter ctl df)"
    by (simp add: filter_data_def Let_def)
  also have "\<dots> = filter (\<lambda>r. \<exists>y \<in> set (selected_years ctl).
                 Brand r \<in> Brand ` set (top_of_year (topn ctl) (year_filter ctl df) y))
       (year_filter ctl df)"
    by (rule filter_cong [OF refl]) (simp only: eq UN_iff)
  finally show ?thesis .
qed

text \<open>
  Claim C9. In the top-N mode, with \<open>df_f\<close> the lines of the selected years: the lines of
  the filtered view are the lines of \<open>df_f\<close> whose brand is among the top lines of some
  selected year, in their order, with no further filter per year. The top lines of a year
  are at most \<open>n\<close> lines of that year (hence at most \<open>n\<close> brands), ranked by falling
  quantity, and no line of the year outside them has a larger quantity than one of them.
\<close>

theorem top_n_per_year_union:
  assumes "mode ctl = TopPerYear" and "df_f = year_filter ctl df" and "n = topn ctl"
  shows "map (\<lambda>v. (Year v, Brand v, Retail v)) (filtered_view ctl df)
       = map (\<lambda>r. (Year r, Brand r, Retail r))
           (filter (\<lambda>r. \<exists>y \<in> set (selected_years ctl). Brand r \<in> Brand ` set (top_of_year n df_f y))
              df_f)
     \<and> (\<forall>y. length (top_of_year n df_f y) \<le> n
           \<and> card (Brand ` set (top_of_year n df_f y)) \<le> n
           \<and> set (top_of_year n df_f y) \<subseteq> set (year_group df_f y)
           \<and> sorted (rev (map Retail (top_of_year n df_f y)))
           \<and> (\<forall>a \<in> set (top_of_year n df_f y). \<forall>b \<in> set (year_group df_f y).
                 Retail a < Retail b \<longrightarrow> b \<in> set (top_of_year n df_f y)))"
proof (intro conjI allI)
  show "map (\<lambda>v. (Year v, Brand v, Retail v)) (filtered_view ctl df)
       = map (\<lambda>r. (Year r, Brand r, Retail r))
           (filter (\<lambda>r. \<exists>y \<in> set (selected_years ctl). Brand r \<in> Brand ` set (top_of_year n df_f y))
              df_f)"
    unfolding filtered_view_rows filter_data_top [OF assms(1)] assms(2,3)
    by (simp add: comp_def)
next
  fix y
  show "length (top_of_year n df_f y) \<le> n"
    by (simp add: top_of_year_def length_nlargest)
  have "card (Brand ` set (top_of_year n df_f y)) \<le> card (set (top_of_year n df_f y))"
    by (rule card_image_le) simp
  also have "\<dots> \<le> length (top_of_year n df_f y)" by (rule card_length)
  also have "\<dots> \<le> n" by (simp add: top_of_year_def length_nlargest)
  finally show "card (Brand ` set (top_of_year n df_f y)) \<le> n" .
  show "set (top_of_year n df_f y) \<subseteq> set (year_group df_f y)"
    unfolding top_of_year_def by (rule set_nlargest)
  show "sorted (rev (map Retail (top_of_year n df_f y)))"
    unfolding top_of_year_def by (rule nlargest_descending)
  show "\<forall>a \<in> set (top_of_year n df_f y). \<forall>b \<in> set (year_group df_f y).
          Retail a < Retail b \<longrightarrow> b \<in> set (top_of_year n df_f y)"
    unfolding top_of_year_def using nlargest_ranked by blast
qed

text \<open>
  With five brands per year, Toyota is among the five of 2020 only and Wuling among the
  five of 2021 only: both stay in both years. Esemka and Hyundai, among the five of no
  year, are dropped.
\<close>

theorem top_n_per_year_union_witness:
  "mode ctl_top5 = TopPerYear
   \<and> map (\<lambda>v. (Year v, Brand v, Retail v)) (filtered_view ctl_top5 data_market)
       = [(2020, ''Toyota'', 1000), (2020, ''Honda'', 500), (2020, ''Daihatsu'', 400),
          (2020, ''Suzuki'', 300), (2020, ''Mitsubishi'', 200), (2020, ''Wuling'', 100),
          (2021, ''Honda'', 1200), (2021, ''Daihatsu'', 450), (2021, ''Suzuki'', 350),
          (2021, ''Mitsubishi'', 250), (2021, ''Wuling'', 150), (2021, ''Toyota'', 120)]
   \<and> map Brand (top_of_year 5 (year_filter ctl_top5 data_market) 2020)
       = [''Toyota'', ''Honda'', ''Daihatsu'', ''Suzuki'', ''Mitsubishi'']
   \<and> map Brand (top_of_year 5 (year_filter ctl_top5 data_market) 2021)
       = [''Honda'', ''Daihatsu'', ''Suzuki'', ''Mitsubishi'', ''Wuling'']"
proof -
  have m: "mode ctl_top5 = TopPerYear" and n: "5 = topn ctl_top5"
    by (simp_all add: ctl_top5_def)
  have t20: "map Brand (top_of_year 5 (year_filter ctl_top5 data_market) 2020)
       = [''Toyota'', ''Honda'', ''Daihatsu'', ''Suzuki'', ''Mitsubishi'']"
    by code_simp
  have t21: "map Brand (top_of_year 5 (year_filter ctl_top5 data_market) 2021)
       = [''Honda'', ''Daihatsu'', ''Suzuki'', ''Mitsubishi'', ''Wuling'']"
    by code_simp
  have rhs: "map (\<lambda>r. (Year r, Brand r, Retail r))
           (filter (\<lambda>r. \<exists>y \<in> set (selected_years ctl_top5).
                     Brand r \<in> Brand ` set (top_of_year 5 (year_filter ctl_top5 data_market) y))
              (year_filter ctl_top5 data_market))
       = [(2020, ''Toyota'', 1000), (2020, ''Honda'', 500), (2020, ''Daihatsu'', 400),
          (2020, ''Suzuki'', 300), (2020, ''Mitsubishi'', 200), (2020, ''Wuling'', 100),
          (2021, ''Honda'', 1200), (2021, ''Daihatsu'', 450), (2021, ''Suzuki'', 350),
          (2021, ''Mitsubishi'', 250), (2021, ''Wuling'', 150), (2021, ''Toyota'', 120)]"
    by code_simp
  from top_n_per_year_union [OF m refl n, of data_market] rhs
  have "map (\<lambda>v. (Year v, Brand v, Retail v)) (filtered_view ctl_top5 data_market)
       = [(2020, ''Toyota'', 1000), (2020, ''Honda'', 500), (2020, ''Daihatsu'', 400),
          (2020, ''Suzuki'', 300), (2020, ''Mitsubishi'', 200), (2020, ''Wuling'', 100),
          (2021, ''Honda'', 1200), (2021, ''Daihatsu'', 450), (2021, ''Suzuki'', 350),
          (2021, ''Mitsubishi'', 250), (2021, ''Wuling'', 150), (2021, ''Toyota'', 120)]"
    by simp
  with m t20 t21 show ?thesis by simp
qed

end
